theory Spec2Isabelle
  imports Complex_Main
begin

section \<open>Errors and tensors\<close>

text \<open>
  The exceptions that \<open>data.py\<close> and the library calls it makes can raise.  Every
  function of the model that can raise returns \<open>error + 'a\<close>, with \<open>Inl\<close> the exception.
\<close>

datatype error =
  SystemExit int
  | AssertionError
  | RuntimeError
  | IndexError
  | ValueError
  | ZeroDivisionError

definition bind_err :: "error + 'a \<Rightarrow> ('a \<Rightarrow> error + 'b) \<Rightarrow> error + 'b" where
  "bind_err m f = (case m of Inl e \<Rightarrow> Inl e | Inr x \<Rightarrow> f x)"

text \<open>
  A tensor (a \<open>torch.Tensor\<close> or a \<open>numpy\<close> array) is its shape and its entries in
  row-major order.  The element type stands for the dtype; rounding to 32-bit floats and
  the 64-bit range of a \<open>LongTensor\<close> are outside the model: reals are exact and indices
  are unbounded integers.
\<close>

record 'a tensor =
  shape :: "nat list"
  data :: "'a list"

text \<open>\<open>t.shape[0]\<close>: a zero-dimensional tensor has the empty shape tuple.\<close>

definition shape0 :: "'a tensor \<Rightarrow> error + nat" where
  "shape0 t = (case shape t of [] \<Rightarrow> Inl IndexError | n # _ \<Rightarrow> Inr n)"

text \<open>\<open>t + b\<close> for a tensor \<open>t\<close> and a Python number \<open>b\<close>.\<close>

definition tensor_add :: "int tensor \<Rightarrow> int \<Rightarrow> int tensor" where
  "tensor_add t b = \<lparr>shape = shape t, data = map (\<lambda>x. x + b) (data t)\<rparr>"

text \<open>\<open>torch.LongTensor(np.arange(m) + b)\<close>.\<close>

definition arange_plus :: "nat \<Rightarrow> int \<Rightarrow> int tensor" where
  "arange_plus m b = \<lparr>shape = [m], data = map (\<lambda>j. int j + b) [0..<m]\<rparr>"

text \<open>
  \<open>torch.cat(ts, dim=0)\<close>: the list must not be empty; every tensor must have the same
  shape apart from the first dimension, or be the one-dimensional empty tensor of shape
  \<open>(0,)\<close>, which is skipped; a zero-dimensional tensor cannot be concatenated.
\<close>

definition torch_cat :: "'a tensor list \<Rightarrow> error + 'a tensor" where
  "torch_cat ts =
     (if ts = [] then Inl RuntimeError
      else case filter (\<lambda>t. shape t \<noteq> [0]) ts of
             [] \<Rightarrow> Inr \<lparr>shape = [0], data = []\<rparr>
           | u # us \<Rightarrow>
               (case shape u of
                  [] \<Rightarrow> Inl RuntimeError
                | n # rest \<Rightarrow>
                    if list_all (\<lambda>t. shape t \<noteq> [] \<and> tl (shape t) = rest) us
                    then Inr \<lparr>shape = sum_list (map (\<lambda>t. hd (shape t)) (u # us)) # rest,
                              data = concat (map data (u # us))\<rparr>
                    else Inl RuntimeError))"

text \<open>
  \<open>torch.stack(ts, dim=0)\<close>: the list must not be empty and all tensors must have the
  same shape.
\<close>

definition torch_stack :: "'a tensor list \<Rightarrow> error + 'a tensor" where
  "torch_stack ts =
     (case ts of
        [] \<Rightarrow> Inl RuntimeError
      | t # us \<Rightarrow>
          if list_all (\<lambda>u. shape u = shape t) us
          then Inr \<lparr>shape = length ts # shape t, data = concat (map data ts)\<rparr>
          else Inl RuntimeError)"

section \<open>Samples and the batch collator\<close>

text \<open>
  A channel of the radial basis is a float; \<open>None\<close> stands for NaN, the value that
  \<open>numpy\<close> gives to \<open>0/0\<close>.
\<close>

type_synonym npfloat = "real option"

text \<open>
  One item of the dataset, the tuple
  \<open>((atom_fea, nbr_fea, nbr_fea_idx, m1_index, m2_feature), target, cif_id)\<close>.
\<close>

record sample =
  atom_fea :: "real tensor"
  nbr_fea :: "npfloat tensor"
  nbr_fea_idx :: "int tensor"
  m1_index :: "int tensor"
  m2_feature :: "real tensor"
  target :: "real tensor"
  cif_id :: string

text \<open>The local variables of \<open>collate_pool\<close> that its loop updates.\<close>

record collate_state =
  batch_atom_fea :: "real tensor list"
  batch_nbr_fea :: "npfloat tensor list"
  batch_nbr_fea_idx :: "int tensor list"
  batch_m1_index :: "int tensor list"
  crystal_atom_idx :: "int tensor list"
  batch_target :: "real tensor list"
  batch_cif_ids :: "string list"
  batch_m2_fea :: "real tensor list"
  base_idx :: int
  base_m1_idx :: int

definition collate_init :: collate_state where
  "collate_init =
     \<lparr>batch_atom_fea = [], batch_nbr_fea = [], batch_nbr_fea_idx = [], batch_m1_index = [],
      crystal_atom_idx = [], batch_target = [], batch_cif_ids = [], batch_m2_fea = [],
      base_idx = 0, base_m1_idx = 0\<rparr>"

text \<open>One iteration of the loop over \<open>dataset_list\<close>.\<close>

definition collate_step :: "collate_state \<Rightarrow> sample \<Rightarrow> error + collate_state" where
  "collate_step st s =
     bind_err (shape0 (atom_fea s)) (\<lambda>n_i.
     bind_err (shape0 (m1_index s)) (\<lambda>m1_i.
       Inr \<lparr>batch_atom_fea = batch_atom_fea st @ [atom_fea s],
            batch_nbr_fea = batch_nbr_fea st @ [nbr_fea s],
            batch_nbr_fea_idx = batch_nbr_fea_idx st @ [tensor_add (nbr_fea_idx s) (base_idx st)],
            batch_m1_index = batch_m1_index st @ [tensor_add (m1_index s) (base_idx st)],
            crystal_atom_idx = crystal_atom_idx st @ [arange_plus m1_i (base_m1_idx st)],
            batch_target = batch_target st @ [target s],
            batch_cif_ids = batch_cif_ids st @ [cif_id s],
            batch_m2_fea = batch_m2_fea st @ [m2_feature s],
            base_idx = base_idx st + int n_i,
            base_m1_idx = base_m1_idx st + int m1_i\<rparr>))"

fun collate_loop :: "collate_state \<Rightarrow> sample list \<Rightarrow> error + collate_state" where
  "collate_loop st [] = Inr st"
| "collate_loop st (s # ss) = bind_err (collate_step st s) (\<lambda>st'. collate_loop st' ss)"

text \<open>
  The batch that \<open>collate_pool\<close> returns, the tuple
  \<open>((atom_fea, nbr_fea, nbr_fea_idx, m1_index, crystal_atom_idx, m2_fea), target, cif_ids)\<close>.
\<close>

record batch =
  cat_atom_fea :: "real tensor"
  cat_nbr_fea :: "npfloat tensor"
  cat_nbr_fea_idx :: "int tensor"
  cat_m1_index :: "int tensor"
  groups :: "int tensor list"
  stack_m2_fea :: "real tensor"
  stack_target :: "real tensor"
  cif_ids :: "string list"

definition collate_pool :: "sample list \<Rightarrow> error + batch" where
  "collate_pool dataset_list =
     bind_err (collate_loop collate_init dataset_list) (\<lambda>st.
     bind_err (torch_cat (batch_atom_fea st)) (\<lambda>a.
     bind_err (torch_cat (batch_nbr_fea st)) (\<lambda>b.
     bind_err (torch_cat (batch_nbr_fea_idx st)) (\<lambda>c.
     bind_err (torch_cat (batch_m1_index st)) (\<lambda>d.
     bind_err (torch_stack (batch_m2_fea st)) (\<lambda>e.
     bind_err (torch_stack (batch_target st)) (\<lambda>f.
       Inr \<lparr>cat_atom_fea = a, cat_nbr_fea = b, cat_nbr_fea_idx = c, cat_m1_index = d,
            groups = crystal_atom_idx st, stack_m2_fea = e, stack_target = f,
            cif_ids = batch_cif_ids st\<rparr>)))))))"

text \<open>
  The quantities in which the collator's result is described: the number of atom rows
  of a sample and the length of its primary index vector, the two running offsets
  before sample \<open>k\<close>, the indices of a field of all samples shifted by the atom offset of
  their sample, and the lengths of the groups of a batch.
\<close>

definition n_atoms :: "sample \<Rightarrow> nat" where
  "n_atoms s = hd (shape (atom_fea s))"

definition n_primary :: "sample \<Rightarrow> nat" where
  "n_primary s = hd (shape (m1_index s))"

definition atom_offset :: "sample list \<Rightarrow> nat \<Rightarrow> nat" where
  "atom_offset ss k = sum_list (map n_atoms (take k ss))"

definition group_offset :: "sample list \<Rightarrow> nat \<Rightarrow> nat" where
  "group_offset ss k = sum_list (map n_primary (take k ss))"

definition shifted :: "(sample \<Rightarrow> int tensor) \<Rightarrow> sample list \<Rightarrow> int list" where
  "shifted fld ss =
     concat (map (\<lambda>k. map (\<lambda>i. i + int (atom_offset ss k)) (data (fld (ss ! k)))) [0..<length ss])"

definition group_sizes :: "batch \<Rightarrow> nat list" where
  "group_sizes b = map (\<lambda>g. length (data g)) (groups b)"

text \<open>
  The shapes of the samples of one dataset: \<open>A\<close> atom features, \<open>M\<close> neighbor slots,
  \<open>L\<close> basis channels, one shape \<open>F\<close> of the auxiliary features and one shape \<open>T\<close> of the
  targets; the primary index vector is one-dimensional.
\<close>

definition sample_shapes :: "nat \<Rightarrow> nat \<Rightarrow> nat \<Rightarrow> nat list \<Rightarrow> nat list \<Rightarrow> sample \<Rightarrow> bool" where
  "sample_shapes A M L F T s \<longleftrightarrow>
     shape (atom_fea s) = [n_atoms s, A] \<and>
     shape (nbr_fea s) = [n_atoms s, M, L] \<and>
     shape (nbr_fea_idx s) = [n_atoms s, M] \<and>
     shape (m1_index s) = [n_primary s] \<and> length (data (m1_index s)) = n_primary s \<and>
     shape (m2_feature s) = F \<and> shape (target s) = T"

text \<open>Every neighbor index and primary index of a sample refers to one of its atoms.\<close>

definition indices_in_range :: "sample \<Rightarrow> bool" where
  "indices_in_range s \<longleftrightarrow>
     (\<forall>i \<in> set (data (nbr_fea_idx s)) \<union> set (data (m1_index s)). 0 \<le> i \<and> i < int (n_atoms s))"

section \<open>The Gaussian distance expansion\<close>

text \<open>
  \<open>np.arange(start, stop, step)\<close> on Python numbers: the length is
  \<open>ceil((stop - start) / step)\<close>, entry \<open>i\<close> is \<open>start + i * step\<close>, and the division
  by a zero step raises.
\<close>

definition np_arange :: "real \<Rightarrow> real \<Rightarrow> real \<Rightarrow> error + real list" where
  "np_arange start stop step =
     (if step = 0 then Inl ZeroDivisionError
      else Inr (map (\<lambda>i. start + real i * step) [0..<nat \<lceil>(stop - start) / step\<rceil>]))"

record GaussianDistance =
  filter_gd :: "real list"
  var_gd :: real

text \<open>\<open>GaussianDistance.__init__\<close>, with assertions enabled.\<close>

definition GaussianDistance_init ::
  "real \<Rightarrow> real \<Rightarrow> real \<Rightarrow> real option \<Rightarrow> error + GaussianDistance" where
  "GaussianDistance_init dmin dmax step var =
     (if \<not> dmin < dmax then Inl AssertionError
      else if \<not> dmax - dmin > step then Inl AssertionError
      else bind_err (np_arange dmin (dmax + step) step) (\<lambda>f.
             Inr \<lparr>filter_gd = f, var_gd = (case var of None \<Rightarrow> step | Some v \<Rightarrow> v)\<rparr>))"

text \<open>
  One channel, \<open>np.exp(-(d - c)**2 / var**2)\<close>.  \<open>numpy\<close> does not raise on a division by
  zero: \<open>-x / 0\<close> is \<open>-inf\<close> for \<open>x > 0\<close>, whose exponential is \<open>0\<close>, and \<open>-0.0 / 0\<close> is NaN.
\<close>

definition gauss :: "real \<Rightarrow> real \<Rightarrow> real \<Rightarrow> npfloat" where
  "gauss v d c =
     (if v\<^sup>2 = 0 then (if (d - c)\<^sup>2 = 0 then None else Some 0)
      else Some (exp (- (d - c)\<^sup>2 / v\<^sup>2)))"

text \<open>
  \<open>expand\<close>: \<open>distances[..., np.newaxis] - self.filter\<close> broadcasts every distance
  against the filter, which adds a last axis of the filter's length.
\<close>

definition expand :: "GaussianDistance \<Rightarrow> real tensor \<Rightarrow> npfloat tensor" where
  "expand g distances =
     \<lparr>shape = shape distances @ [length (filter_gd g)],
      data = concat (map (\<lambda>d. map (gauss (var_gd g) d) (filter_gd g)) (data distances))\<rparr>"

text \<open>A scalar distance as a zero-dimensional array.\<close>

definition scalar :: "real \<Rightarrow> real tensor" where
  "scalar d = \<lparr>shape = [], data = [d]\<rparr>"

section \<open>The dataset\<close>

record CIFData =
  max_num_nbr :: int
  radius :: real
  metal_max_num_nbr :: int
  metal_radius :: real
  pred :: bool
  gdf :: GaussianDistance

text \<open>
  \<open>CIFData.__init__\<close>; \<open>root_exists\<close> is the value of \<open>os.path.exists(root_dir)\<close>.
\<close>

definition CIFData_init ::
  "bool \<Rightarrow> int \<Rightarrow> int \<Rightarrow> real \<Rightarrow> real \<Rightarrow> real \<Rightarrow> real \<Rightarrow> bool \<Rightarrow> error + CIFData" where
  "CIFData_init root_exists max_num_nbr' metal_max_num_nbr' metal_radius' radius' dmin step pred' =
     (if \<not> root_exists then Inl AssertionError
      else bind_err (GaussianDistance_init dmin radius' step None) (\<lambda>g.
             Inr \<lparr>max_num_nbr = max_num_nbr', radius = radius',
                  metal_max_num_nbr = metal_max_num_nbr', metal_radius = metal_radius',
                  pred = pred', gdf = g\<rparr>))"

text \<open>
  A structure as \<open>__getitem__\<close> sees it: the species of its sites, and the two spatial
  queries of the geometry library.  A neighbor \<open>x\<close> is the pair of its distance \<open>x[1]\<close>
  and its site index \<open>x[2]\<close>.
\<close>

record specie =
  is_metal :: bool
  number :: int

type_synonym neighbor = "real \<times> int"

record crystal =
  species :: "specie list"
  get_neighbors :: "nat \<Rightarrow> real \<Rightarrow> neighbor list"
  get_all_neighbors :: "real \<Rightarrow> neighbor list list"

text \<open>The slice \<open>xs[:m]\<close>; a negative \<open>m\<close> counts from the end.\<close>

definition slice_to :: "'a list \<Rightarrow> int \<Rightarrow> 'a list" where
  "slice_to xs m = (if 0 \<le> m then take (nat m) xs else take (nat (int (length xs) + m)) xs)"

text \<open>The metal atoms, in site order (lines 178 to 184).\<close>

definition metal_index :: "crystal \<Rightarrow> nat list" where
  "metal_index c = filter (\<lambda>i. is_metal (species c ! i)) [0..<length (species c)]"

text \<open>The atom features: the atomic number and the number of neighbors within 1.6.\<close>

definition atom_fea_rows :: "crystal \<Rightarrow> real list list" where
  "atom_fea_rows c =
     map (\<lambda>i. [of_int (number (species c ! i)), real (length (get_neighbors c i (16 / 10)))])
       [0..<length (species c)]"

text \<open>
  The neighbor lists within the radius and, for the metal atoms, within the metal
  radius, each sorted by distance; Python's \<open>sorted\<close> is stable, as \<open>sort_key\<close> is.
\<close>

definition all_nbrs :: "CIFData \<Rightarrow> crystal \<Rightarrow> neighbor list list" where
  "all_nbrs self c = map (sort_key fst) (get_all_neighbors c (radius self))"

definition all_metal_nbrs :: "CIFData \<Rightarrow> crystal \<Rightarrow> neighbor list list" where
  "all_metal_nbrs self c =
     map (sort_key fst) (map (\<lambda>i. get_neighbors c i (metal_radius self)) (metal_index c))"

text \<open>
  The two branches of the loops over the neighbor lists (lines 205 to 214 and 220 to 234):
  a list shorter than \<open>m\<close> is padded, with index 0 and with the distance \<open>r + 1\<close>; any
  other list is cut by the slice \<open>nbr[:m]\<close>.
\<close>

definition pad_idx :: "int \<Rightarrow> neighbor list \<Rightarrow> int list" where
  "pad_idx m nbr =
     (if int (length nbr) < m
      then map snd nbr @ replicate (nat (m - int (length nbr))) 0
      else map snd (slice_to nbr m))"

definition pad_dist :: "real \<Rightarrow> int \<Rightarrow> neighbor list \<Rightarrow> real list" where
  "pad_dist r m nbr =
     (if int (length nbr) < m
      then map fst nbr @ replicate (nat (m - int (length nbr))) (r + 1)
      else map fst (slice_to nbr m))"

definition metal_nbr_idx :: "CIFData \<Rightarrow> crystal \<Rightarrow> int list list" where
  "metal_nbr_idx self c = map (pad_idx (metal_max_num_nbr self)) (all_metal_nbrs self c)"

text \<open>
  The loop of lines 215 to 218: every row is asserted to have \<open>m\<close> entries, and its
  entries \<open>0 .. m - 1\<close> are appended.
\<close>

fun M_idx :: "int \<Rightarrow> int list list \<Rightarrow> error + int list" where
  "M_idx m [] = Inr []"
| "M_idx m (row # rows) =
     (if int (length row) \<noteq> m then Inl AssertionError
      else bind_err (M_idx m rows) (\<lambda>rest. Inr (map (\<lambda>j. row ! j) [0..<nat m] @ rest)))"

definition nbr_fea_idx_rows :: "CIFData \<Rightarrow> crystal \<Rightarrow> int list list" where
  "nbr_fea_idx_rows self c = map (pad_idx (max_num_nbr self)) (all_nbrs self c)"

definition nbr_fea_rows :: "CIFData \<Rightarrow> crystal \<Rightarrow> real list list" where
  "nbr_fea_rows self c = map (pad_dist (radius self) (max_num_nbr self)) (all_nbrs self c)"

text \<open>
  \<open>list(set(M_idx) | set(metal_index))\<close>.  Python fixes no order for the elements of a
  set; the model lists them in order of first occurrence.
\<close>

definition M1_idx :: "int list \<Rightarrow> nat list \<Rightarrow> int list" where
  "M1_idx m_idx metals = remdups (m_idx @ map int metals)"

text \<open>
  \<open>np.array\<close> (or a tensor constructor) of a list of rows: the rows must have one
  length; no rows give the empty one-dimensional array.
\<close>

definition np_array2 :: "'a list list \<Rightarrow> error + 'a tensor" where
  "np_array2 rows =
     (case rows of
        [] \<Rightarrow> Inr \<lparr>shape = [0], data = []\<rparr>
      | r # rs \<Rightarrow>
          if list_all (\<lambda>q. length q = length r) rs
          then Inr \<lparr>shape = [length rows, length r], data = concat rows\<rparr>
          else Inl ValueError)"

text \<open>A tensor constructor applied to a flat list.\<close>

definition tensor1 :: "'a list \<Rightarrow> 'a tensor" where
  "tensor1 xs = \<lparr>shape = [length xs], data = xs\<rparr>"

text \<open>
  \<open>CIFData.__getitem__\<close> from line 178 on.  The identifier, the target and the auxiliary
  features of the property table and the loaded structure are its arguments: the table
  and the structure file are read by the lines before.  Warnings are not part of the
  result.
\<close>

definition getitem ::
  "CIFData \<Rightarrow> string \<Rightarrow> real list \<Rightarrow> real list \<Rightarrow> crystal \<Rightarrow> error + sample" where
  "getitem self cif target' m2 c =
     (if length (metal_index c) = 0 then Inl (SystemExit 0)
      else
        bind_err (np_array2 (atom_fea_rows c)) (\<lambda>atom_fea'.
        bind_err (M_idx (metal_max_num_nbr self) (metal_nbr_idx self c)) (\<lambda>m_idx.
        bind_err (np_array2 (nbr_fea_idx_rows self c)) (\<lambda>nbr_fea_idx'.
        bind_err (np_array2 (nbr_fea_rows self c)) (\<lambda>nbr_fea'.
          Inr \<lparr>atom_fea = atom_fea',
               nbr_fea = expand (gdf self) nbr_fea',
               nbr_fea_idx = nbr_fea_idx',
               m1_index = tensor1 (M1_idx m_idx (metal_index c)),
               m2_feature = tensor1 m2,
               target = tensor1 target',
               cif_id = cif\<rparr>)))))"

section \<open>Concrete inputs\<close>

text \<open>Two samples with three and five atoms, two neighbor slots and one basis channel.\<close>

definition sample_a :: sample where
  "sample_a = \<lparr>atom_fea = \<lparr>shape = [3, 2], data = [30, 4, 8, 1, 8, 1]\<rparr>,
               nbr_fea = \<lparr>shape = [3, 2, 1], data = map Some [1, 1, 1, 1, 1, 1]\<rparr>,
               nbr_fea_idx = \<lparr>shape = [3, 2], data = [1, 2, 0, 2, 0, 1]\<rparr>,
               m1_index = \<lparr>shape = [2], data = [0, 2]\<rparr>,
               m2_feature = \<lparr>shape = [1], data = [7]\<rparr>,
               target = \<lparr>shape = [1], data = [5]\<rparr>,
               cif_id = ''a''\<rparr>"

definition sample_b :: sample where
  "sample_b = \<lparr>atom_fea = \<lparr>shape = [5, 2], data = [6, 2, 6, 2, 29, 4, 7, 1, 1, 1]\<rparr>,
               nbr_fea = \<lparr>shape = [5, 2, 1], data = map Some [1, 1, 1, 1, 1, 1, 1, 1, 1, 1]\<rparr>,
               nbr_fea_idx = \<lparr>shape = [5, 2], data = [1, 4, 0, 2, 1, 3, 2, 4, 3, 0]\<rparr>,
               m1_index = \<lparr>shape = [3], data = [4, 1, 3]\<rparr>,
               m2_feature = \<lparr>shape = [1], data = [9]\<rparr>,
               target = \<lparr>shape = [1], data = [2]\<rparr>,
               cif_id = ''b''\<rparr>"

text \<open>
  A dataset with three neighbor slots, radius 3, one metal neighbor slot and metal
  radius 4, and the same dataset with \<open>max_num_nbr = -1\<close>.
\<close>

definition example_data :: CIFData where
  "example_data =
     \<lparr>max_num_nbr = 3, radius = 3, metal_max_num_nbr = 1, metal_radius = 4, pred = False,
      gdf = \<lparr>filter_gd = [0, 1, 2, 3], var_gd = 1\<rparr>\<rparr>"

definition negative_data :: CIFData where
  "negative_data =
     \<lparr>max_num_nbr = - 1, radius = 3, metal_max_num_nbr = 1, metal_radius = 4, pred = False,
      gdf = \<lparr>filter_gd = [0, 1, 2, 3], var_gd = 1\<rparr>\<rparr>"

text \<open>
  Two sites, an oxygen and a copper atom; each has the other site at distance 2 and its
  own periodic image at distance 3.
\<close>

definition cu_o :: crystal where
  "cu_o =
     \<lparr>species = [\<lparr>is_metal = False, number = 8\<rparr>, \<lparr>is_metal = True, number = 29\<rparr>],
      get_neighbors = (\<lambda>i r. filter (\<lambda>x. fst x \<le> r) [(3, int i), (2, 1 - int i)]),
      get_all_neighbors =
        (\<lambda>r. map (\<lambda>i. filter (\<lambda>x. fst x \<le> r) [(3, int i), (2, 1 - int i)]) [0, 1])\<rparr>"

text \<open>The same two sites with no neighbor within any radius.\<close>

definition lone_cu :: crystal where
  "lone_cu =
     \<lparr>species = [\<lparr>is_metal = False, number = 8\<rparr>, \<lparr>is_metal = True, number = 29\<rparr>],
      get_neighbors = (\<lambda>i r. []),
      get_all_neighbors = (\<lambda>r. [[], []])\<rparr>"

text \<open>Two oxygen sites: a structure with no metal atom.\<close>

definition o2 :: crystal where
  "o2 =
     \<lparr>species = [\<lparr>is_metal = False, number = 8\<rparr>, \<lparr>is_metal = False, number = 8\<rparr>],
      get_neighbors = (\<lambda>i r. []),
      get_all_neighbors = (\<lambda>r. [[], []])\<rparr>"

text \<open>The samples of these structures.\<close>

definition cu_o_sample :: sample where
  "cu_o_sample =
     \<lparr>atom_fea = \<lparr>shape = [2, 2], data = [8, 0, 29, 0]\<rparr>,
      nbr_fea = expand \<lparr>filter_gd = [0, 1, 2, 3], var_gd = 1\<rparr>
                  \<lparr>shape = [2, 3], data = [2, 3, 4, 2, 3, 4]\<rparr>,
      nbr_fea_idx = \<lparr>shape = [2, 3], data = [1, 0, 0, 0, 1, 0]\<rparr>,
      m1_index = \<lparr>shape = [2], data = [0, 1]\<rparr>,
      m2_feature = \<lparr>shape = [1], data = [2]\<rparr>,
      target = \<lparr>shape = [1], data = [1]\<rparr>,
      cif_id = ''CuO''\<rparr>"

definition lone_cu_sample :: sample where
  "lone_cu_sample =
     \<lparr>atom_fea = \<lparr>shape = [2, 2], data = [8, 0, 29, 0]\<rparr>,
      nbr_fea = expand \<lparr>filter_gd = [0, 1, 2, 3], var_gd = 1\<rparr>
                  \<lparr>shape = [2, 3], data = [4, 4, 4, 4, 4, 4]\<rparr>,
      nbr_fea_idx = \<lparr>shape = [2, 3], data = [0, 0, 0, 0, 0, 0]\<rparr>,
      m1_index = \<lparr>shape = [2], data = [0, 1]\<rparr>,
      m2_feature = \<lparr>shape = [1], data = [2]\<rparr>,
      target = \<lparr>shape = [1], data = [1]\<rparr>,
      cif_id = ''Cu''\<rparr>"

definition negative_sample :: sample where
  "negative_sample =
     \<lparr>atom_fea = \<lparr>shape = [2, 2], data = [8, 0, 29, 0]\<rparr>,
      nbr_fea = expand \<lparr>filter_gd = [0, 1, 2, 3], var_gd = 1\<rparr>
                  \<lparr>shape = [2, 1], data = [2, 2]\<rparr>,
      nbr_fea_idx = \<lparr>shape = [2, 1], data = [1, 0]\<rparr>,
      m1_index = \<lparr>shape = [2], data = [0, 1]\<rparr>,
      m2_feature = \<lparr>shape = [1], data = [2]\<rparr>,
      target = \<lparr>shape = [1], data = [1]\<rparr>,
      cif_id = ''CuO''\<rparr>"

section \<open>The loop of the collator\<close>

lemma atom_offset_simps:
  "atom_offset ss 0 = 0"
  "atom_offset (s # ss) (Suc k) = n_atoms s + atom_offset ss k"
  by (simp_all add: atom_offset_def)

lemma group_offset_simps:
  "group_offset ss 0 = 0"
  "group_offset (s # ss) (Suc k) = n_primary s + group_offset ss k"
  by (simp_all add: group_offset_def)

lemma atom_offset_Suc:
  "k < length ss \<Longrightarrow> atom_offset ss (Suc k) = atom_offset ss k + n_atoms (ss ! k)"
  by (simp add: atom_offset_def take_Suc_conv_app_nth)

lemma group_offset_Suc:
  "k < length ss \<Longrightarrow> group_offset ss (Suc k) = group_offset ss k + n_primary (ss ! k)"
  by (simp add: group_offset_def take_Suc_conv_app_nth)

lemma atom_offset_mono: "j \<le> k \<Longrightarrow> atom_offset ss j \<le> atom_offset ss k"
proof (induction k)
  case 0
  then show ?case by simp
next
  case (Suc k)
  show ?case
  proof (cases "j = Suc k")
    case True
    then show ?thesis by simp
  next
    case False
    then have le: "atom_offset ss j \<le> atom_offset ss k" using Suc by simp
    show ?thesis
    proof (cases "k < length ss")
      case True
      then show ?thesis using le by (simp add: atom_offset_Suc)
    next
      case False
      then show ?thesis using le by (simp add: atom_offset_def)
    qed
  qed
qed

lemma map_upt_shift: "map f [0..<Suc n] = f 0 # map (\<lambda>k. f (Suc k)) [0..<n]"
  by (simp only: upt_conv_Cons[OF zero_less_Suc] list.map map_Suc_upt[symmetric] map_map o_def)

lemma map_nth_fn: "map (\<lambda>k. f (xs ! k)) [0..<length xs] = map f xs"
  by (rule nth_equalityI) simp_all

lemma collate_step_ok:
  assumes "shape (atom_fea s) \<noteq> []" "shape (m1_index s) \<noteq> []"
  shows "collate_step st s =
     Inr \<lparr>batch_atom_fea = batch_atom_fea st @ [atom_fea s],
            batch_nbr_fea = batch_nbr_fea st @ [nbr_fea s],
            batch_nbr_fea_idx = batch_nbr_fea_idx st @ [tensor_add (nbr_fea_idx s) (base_idx st)],
            batch_m1_index = batch_m1_index st @ [tensor_add (m1_index s) (base_idx st)],
            crystal_atom_idx = crystal_atom_idx st @ [arange_plus (n_primary s) (base_m1_idx st)],
            batch_target = batch_target st @ [target s],
            batch_cif_ids = batch_cif_ids st @ [cif_id s],
            batch_m2_fea = batch_m2_fea st @ [m2_feature s],
            base_idx = base_idx st + int (n_atoms s),
            base_m1_idx = base_m1_idx st + int (n_primary s)\<rparr>"
  using assms
  by (cases "shape (atom_fea s)"; cases "shape (m1_index s)")
     (simp_all add: collate_step_def bind_err_def shape0_def n_atoms_def n_primary_def)

lemma collate_loop_ok:
  assumes "\<forall>s\<in>set ss. shape (atom_fea s) \<noteq> [] \<and> shape (m1_index s) \<noteq> []"
  shows "collate_loop st ss =
     Inr \<lparr>batch_atom_fea = batch_atom_fea st @ map atom_fea ss,
            batch_nbr_fea = batch_nbr_fea st @ map nbr_fea ss,
            batch_nbr_fea_idx = batch_nbr_fea_idx st @
              map (\<lambda>k. tensor_add (nbr_fea_idx (ss ! k)) (base_idx st + int (atom_offset ss k))) [0..<length ss],
            batch_m1_index = batch_m1_index st @
              map (\<lambda>k. tensor_add (m1_index (ss ! k)) (base_idx st + int (atom_offset ss k))) [0..<length ss],
            crystal_atom_idx = crystal_atom_idx st @
              map (\<lambda>k. arange_plus (n_primary (ss ! k)) (base_m1_idx st + int (group_offset ss k))) [0..<length ss],
            batch_target = batch_target st @ map target ss,
            batch_cif_ids = batch_cif_ids st @ map cif_id ss,
            batch_m2_fea = batch_m2_fea st @ map m2_feature ss,
            base_idx = base_idx st + int (atom_offset ss (length ss)),
            base_m1_idx = base_m1_idx st + int (group_offset ss (length ss))\<rparr>"
  using assms
proof (induction ss arbitrary: st)
  case Nil
  then show ?case by (simp add: atom_offset_simps group_offset_simps)
next
  case (Cons s ss)
  have step: "collate_step st s = Inr \<lparr>batch_atom_fea = batch_atom_fea st @ [atom_fea s],
            batch_nbr_fea = batch_nbr_fea st @ [nbr_fea s],
            batch_nbr_fea_idx = batch_nbr_fea_idx st @ [tensor_add (nbr_fea_idx s) (base_idx st)],
            batch_m1_index = batch_m1_index st @ [tensor_add (m1_index s) (base_idx st)],
            crystal_atom_idx = crystal_atom_idx st @ [arange_plus (n_primary s) (base_m1_idx st)],
            batch_target = batch_target st @ [target s],
            batch_cif_ids = batch_cif_ids st @ [cif_id s],
            batch_m2_fea = batch_m2_fea st @ [m2_feature s],
            base_idx = base_idx st + int (n_atoms s),
            base_m1_idx = base_m1_idx st + int (n_primary s)\<rparr>"
    using Cons.prems by (intro collate_step_ok) simp_all
  have rest: "\<forall>s\<in>set ss. shape (atom_fea s) \<noteq> [] \<and> shape (m1_index s) \<noteq> []"
    using Cons.prems by simp
  show ?case
    by (simp add: step bind_err_def Cons.IH[OF rest] map_upt_shift atom_offset_simps
        group_offset_simps add.assoc del: upt_Suc)
qed

section \<open>Concatenation and stacking\<close>

lemma torch_cat_rest:
  assumes "ts \<noteq> []" "rest \<noteq> []" "\<forall>t\<in>set ts. \<exists>n. shape t = n # rest"
  shows "torch_cat ts =
    Inr \<lparr>shape = sum_list (map (\<lambda>t. hd (shape t)) ts) # rest, data = concat (map data ts)\<rparr>"
proof -
  have nz: "\<forall>t\<in>set ts. shape t \<noteq> [0]" using assms(2,3) by auto
  then have flt: "filter (\<lambda>t. shape t \<noteq> [0]) ts = ts" by simp
  obtain u us where ts: "ts = u # us" using assms(1) by (cases ts) auto
  obtain n where u: "shape u = n # rest" using assms(3) ts by auto
  have all: "list_all (\<lambda>t. shape t \<noteq> [] \<and> tl (shape t) = rest) us"
    using assms(3) ts by (auto simp: list_all_iff)
  show ?thesis
    unfolding torch_cat_def flt using all by (simp add: ts u)
qed

lemma filter_nonempty_1d:
  assumes "\<forall>t\<in>set ts. shape t = [length (data t)]"
  shows "sum_list (map (\<lambda>t. hd (shape t)) (filter (\<lambda>t. shape t \<noteq> [0]) ts)) =
           sum_list (map (\<lambda>t. length (data t)) ts)
       \<and> concat (map data (filter (\<lambda>t. shape t \<noteq> [0]) ts)) = concat (map data ts)"
  using assms by (induction ts) auto

lemma torch_cat_1d:
  assumes "ts \<noteq> []" "\<forall>t\<in>set ts. shape t = [length (data t)]"
  shows "torch_cat ts =
    Inr \<lparr>shape = [sum_list (map (\<lambda>t. length (data t)) ts)], data = concat (map data ts)\<rparr>"
proof (cases "filter (\<lambda>t. shape t \<noteq> [0]) ts")
  case Nil
  then have "\<forall>t\<in>set ts. shape t = [0]" by (auto simp: filter_empty_conv)
  then have "\<forall>t\<in>set ts. length (data t) = 0" using assms(2) by auto
  then have "sum_list (map (\<lambda>t. length (data t)) ts) = 0" "concat (map data ts) = []"
    by (induction ts) auto
  then show ?thesis using Nil assms(1) by (simp add: torch_cat_def)
next
  case (Cons u us)
  have mem: "set (u # us) \<subseteq> set ts" using Cons by (metis filter_is_subset)
  then have u: "shape u = [length (data u)]" using assms(2) by auto
  have all: "list_all (\<lambda>t. shape t \<noteq> [] \<and> tl (shape t) = []) us"
    using mem assms(2) by (auto simp: list_all_iff)
  have eqs: "sum_list (map (\<lambda>t. hd (shape t)) (u # us)) = sum_list (map (\<lambda>t. length (data t)) ts)"
    "concat (map data (u # us)) = concat (map data ts)"
    using filter_nonempty_1d[OF assms(2)] Cons by simp_all
  show ?thesis
    using assms(1) all eqs by (simp add: torch_cat_def Cons u)
qed

lemma torch_stack_same:
  assumes "ts \<noteq> []" "\<forall>t\<in>set ts. shape t = sh"
  shows "torch_stack ts = Inr \<lparr>shape = length ts # sh, data = concat (map data ts)\<rparr>"
  using assms by (cases ts) (auto simp: torch_stack_def list_all_iff)

lemma sum_hd_shape_atoms:
  "sum_list (map (\<lambda>t. hd (shape t)) (map atom_fea ss)) = atom_offset ss (length ss)"
  by (simp add: atom_offset_def n_atoms_def[abs_def] o_def)

section \<open>The batch in closed form\<close>

lemma collate_pool_result:
  assumes ne: "samples \<noteq> []" and sh: "\<forall>s\<in>set samples. sample_shapes A M L F T s"
  shows "collate_pool samples =
    Inr \<lparr>cat_atom_fea = \<lparr>shape = [atom_offset samples (length samples), A],
                           data = concat (map (\<lambda>s. data (atom_fea s)) samples)\<rparr>,
         cat_nbr_fea = \<lparr>shape = [atom_offset samples (length samples), M, L],
                          data = concat (map (\<lambda>s. data (nbr_fea s)) samples)\<rparr>,
         cat_nbr_fea_idx = \<lparr>shape = [atom_offset samples (length samples), M],
                              data = shifted nbr_fea_idx samples\<rparr>,
         cat_m1_index = \<lparr>shape = [group_offset samples (length samples)],
                           data = shifted m1_index samples\<rparr>,
         groups = map (\<lambda>k. arange_plus (n_primary (samples ! k)) (int (group_offset samples k)))
                    [0..<length samples],
         stack_m2_fea = \<lparr>shape = length samples # F,
                           data = concat (map (\<lambda>s. data (m2_feature s)) samples)\<rparr>,
         stack_target = \<lparr>shape = length samples # T,
                           data = concat (map (\<lambda>s. data (target s)) samples)\<rparr>,
         cif_ids = map cif_id samples\<rparr>"
proof -
  let ?K = "length samples"
  let ?idx = "map (\<lambda>k. tensor_add (nbr_fea_idx (samples ! k)) (int (atom_offset samples k))) [0..<?K]"
  let ?m1 = "map (\<lambda>k. tensor_add (m1_index (samples ! k)) (int (atom_offset samples k))) [0..<?K]"
  have nonempty: "\<forall>s\<in>set samples. shape (atom_fea s) \<noteq> [] \<and> shape (m1_index s) \<noteq> []"
    using sh by (auto simp: sample_shapes_def)
  have loop: "collate_loop collate_init samples =
     Inr \<lparr>batch_atom_fea = map atom_fea samples,
          batch_nbr_fea = map nbr_fea samples,
          batch_nbr_fea_idx = ?idx,
          batch_m1_index = ?m1,
          crystal_atom_idx =
            map (\<lambda>k. arange_plus (n_primary (samples ! k)) (int (group_offset samples k))) [0..<?K],
          batch_target = map target samples,
          batch_cif_ids = map cif_id samples,
          batch_m2_fea = map m2_feature samples,
          base_idx = int (atom_offset samples ?K),
          base_m1_idx = int (group_offset samples ?K)\<rparr>"
    by (simp add: collate_loop_ok[OF nonempty] collate_init_def)
  have sumA: "sum_list (map (\<lambda>t. hd (shape t)) (map atom_fea samples)) = atom_offset samples ?K"
    by (rule sum_hd_shape_atoms)
  have sumB: "sum_list (map (\<lambda>t. hd (shape t)) (map nbr_fea samples)) = atom_offset samples ?K"
    using sh by (simp add: atom_offset_def o_def sample_shapes_def cong: map_cong)
  have sumC: "sum_list (map (\<lambda>t. hd (shape t)) ?idx) = atom_offset samples ?K"
  proof -
    have "map (\<lambda>t. hd (shape t)) ?idx = map (\<lambda>k. n_atoms (samples ! k)) [0..<?K]"
      using sh by (simp add: tensor_add_def sample_shapes_def)
    also have "\<dots> = map n_atoms samples"
      by (rule map_nth_fn)
    finally show ?thesis by (simp add: atom_offset_def)
  qed
  have sumD: "sum_list (map (\<lambda>t. length (data t)) ?m1) = group_offset samples ?K"
  proof -
    have "map (\<lambda>t. length (data t)) ?m1 = map (\<lambda>k. n_primary (samples ! k)) [0..<?K]"
      using sh by (simp add: tensor_add_def sample_shapes_def)
    also have "\<dots> = map n_primary samples"
      by (rule map_nth_fn)
    finally show ?thesis by (simp add: group_offset_def)
  qed
  have catA: "torch_cat (map atom_fea samples) =
      Inr \<lparr>shape = [atom_offset samples ?K, A], data = concat (map (\<lambda>s. data (atom_fea s)) samples)\<rparr>"
  proof -
    have "torch_cat (map atom_fea samples) =
        Inr \<lparr>shape = sum_list (map (\<lambda>t. hd (shape t)) (map atom_fea samples)) # [A],
             data = concat (map data (map atom_fea samples))\<rparr>"
      using ne sh by (intro torch_cat_rest) (auto simp: sample_shapes_def)
    then show ?thesis by (simp only: sumA) (simp add: o_def)
  qed
  have catB: "torch_cat (map nbr_fea samples) =
      Inr \<lparr>shape = [atom_offset samples ?K, M, L], data = concat (map (\<lambda>s. data (nbr_fea s)) samples)\<rparr>"
  proof -
    have "torch_cat (map nbr_fea samples) =
        Inr \<lparr>shape = sum_list (map (\<lambda>t. hd (shape t)) (map nbr_fea samples)) # [M, L],
             data = concat (map data (map nbr_fea samples))\<rparr>"
      using ne sh by (intro torch_cat_rest) (auto simp: sample_shapes_def)
    then show ?thesis by (simp only: sumB) (simp add: o_def)
  qed
  have catC: "torch_cat ?idx =
      Inr \<lparr>shape = [atom_offset samples ?K, M], data = shifted nbr_fea_idx samples\<rparr>"
  proof -
    have "torch_cat ?idx = Inr \<lparr>shape = sum_list (map (\<lambda>t. hd (shape t)) ?idx) # [M],
                                 data = concat (map data ?idx)\<rparr>"
      using ne sh by (intro torch_cat_rest) (auto simp: sample_shapes_def tensor_add_def)
    then show ?thesis by (simp only: sumC) (simp add: shifted_def tensor_add_def o_def)
  qed
  have catD: "torch_cat ?m1 =
      Inr \<lparr>shape = [group_offset samples ?K], data = shifted m1_index samples\<rparr>"
  proof -
    have "torch_cat ?m1 = Inr \<lparr>shape = [sum_list (map (\<lambda>t. length (data t)) ?m1)],
                                data = concat (map data ?m1)\<rparr>"
      using ne sh by (intro torch_cat_1d) (auto simp: sample_shapes_def tensor_add_def)
    then show ?thesis by (simp only: sumD) (simp add: shifted_def tensor_add_def o_def)
  qed
  have stE: "torch_stack (map m2_feature samples) =
      Inr \<lparr>shape = ?K # F, data = concat (map (\<lambda>s. data (m2_feature s)) samples)\<rparr>"
  proof -
    have "torch_stack (map m2_feature samples) =
        Inr \<lparr>shape = length (map m2_feature samples) # F,
             data = concat (map data (map m2_feature samples))\<rparr>"
      using ne sh by (intro torch_stack_same) (auto simp: sample_shapes_def)
    then show ?thesis by (simp add: o_def)
  qed
  have stF: "torch_stack (map target samples) =
      Inr \<lparr>shape = ?K # T, data = concat (map (\<lambda>s. data (target s)) samples)\<rparr>"
  proof -
    have "torch_stack (map target samples) =
        Inr \<lparr>shape = length (map target samples) # T,
             data = concat (map data (map target samples))\<rparr>"
      using ne sh by (intro torch_stack_same) (auto simp: sample_shapes_def)
    then show ?thesis by (simp add: o_def)
  qed
  show ?thesis
    unfolding collate_pool_def loop
    by (simp add: bind_err_def catA catB catC catD stE stF)
qed

lemma arange_plus_range:
  "arange_plus m (int g) = \<lparr>shape = [m], data = map int [g..<g + m]\<rparr>"
proof -
  have "map (\<lambda>j. int j + int g) [0..<m] = map int [g..<g + m]"
    by (induction m) (simp_all add: add.commute)
  then show ?thesis by (simp add: arange_plus_def)
qed

lemma concat_ranges:
  assumes "\<And>k. k < K \<Longrightarrow> g (Suc k) = g k + p k" "g 0 = (0::nat)"
  shows "concat (map (\<lambda>k. [g k..<g k + p k]) [0..<K]) = [0..<g K]"
  using assms(1)
proof (induction K)
  case 0
  then show ?case by (simp add: assms(2))
next
  case (Suc K)
  then have "concat (map (\<lambda>k. [g k..<g k + p k]) [0..<K]) = [0..<g K]" by simp
  moreover have "g (Suc K) = g K + p K" using Suc.prems by simp
  moreover have "[0..<g K + p K] = [0..<g K] @ [g K..<g K + p K]"
    by (rule upt_add_eq_append) simp
  ultimately show ?case by simp
qed

lemma shifted_in_range:
  assumes "\<forall>s\<in>set ss. \<forall>i\<in>set (data (fld s)). 0 \<le> i \<and> i < int (n_atoms s)"
    and "i \<in> set (shifted fld ss)"
  shows "0 \<le> i \<and> i < int (atom_offset ss (length ss))"
proof -
  from assms(2) obtain k j where k: "k < length ss" and j: "j \<in> set (data (fld (ss ! k)))"
    and i: "i = j + int (atom_offset ss k)"
    by (auto simp: shifted_def)
  have "ss ! k \<in> set ss" using k by simp
  then have jr: "0 \<le> j \<and> j < int (n_atoms (ss ! k))" using assms(1) j by blast
  have "atom_offset ss (Suc k) \<le> atom_offset ss (length ss)"
    using k by (intro atom_offset_mono) simp
  then have "atom_offset ss k + n_atoms (ss ! k) \<le> atom_offset ss (length ss)"
    using k by (simp add: atom_offset_Suc)
  then show ?thesis using jr i by linarith
qed

lemma groups_data:
  "map data (map (\<lambda>k. arange_plus (n_primary (ss ! k)) (int (group_offset ss k))) [0..<length ss]) =
   map (\<lambda>k. map int [group_offset ss k..<group_offset ss (Suc k)]) [0..<length ss]"
  by (simp add: arange_plus_range group_offset_Suc)

lemma groups_concat:
  "concat (map (\<lambda>k. map int [group_offset ss k..<group_offset ss (Suc k)]) [0..<length ss]) =
   map int [0..<group_offset ss (length ss)]"
proof -
  have A: "concat (map (\<lambda>k. [group_offset ss k..<group_offset ss k + n_primary (ss ! k)]) [0..<length ss]) =
        [0..<group_offset ss (length ss)]"
    by (rule concat_ranges) (simp_all add: group_offset_Suc group_offset_simps)
  have B: "map (\<lambda>k. map int [group_offset ss k..<group_offset ss (Suc k)]) [0..<length ss] =
      map (\<lambda>k. map int [group_offset ss k..<group_offset ss k + n_primary (ss ! k)]) [0..<length ss]"
    by (simp add: group_offset_Suc)
  have "concat (map (\<lambda>k. map int [group_offset ss k..<group_offset ss k + n_primary (ss ! k)])
           [0..<length ss]) =
        map int (concat (map (\<lambda>k. [group_offset ss k..<group_offset ss k + n_primary (ss ! k)])
           [0..<length ss]))"
    by (simp add: map_concat o_def)
  then show ?thesis unfolding B by (simp only: A)
qed

lemma two_samples_shapes:
  "\<forall>s\<in>set [sample_a, sample_b]. sample_shapes 2 2 1 [1] [1] s"
  by (simp add: sample_shapes_def sample_a_def sample_b_def n_atoms_def n_primary_def)

lemma two_samples_range:
  "\<forall>s\<in>set [sample_a, sample_b]. indices_in_range s"
  by (simp add: indices_in_range_def sample_a_def sample_b_def n_atoms_def)

lemma two_samples_offsets:
  "atom_offset [sample_a, sample_b] 0 = 0"
  "atom_offset [sample_a, sample_b] (Suc 0) = 3"
  "atom_offset [sample_a, sample_b] (Suc (Suc 0)) = 8"
  "group_offset [sample_a, sample_b] 0 = 0"
  "group_offset [sample_a, sample_b] (Suc 0) = 2"
  "group_offset [sample_a, sample_b] (Suc (Suc 0)) = 5"
  by (simp_all add: atom_offset_def group_offset_def n_atoms_def n_primary_def sample_a_def sample_b_def)

section \<open>The collator: offsets and grouping\<close>

text \<open>
  Claim C1.  For a non-empty list of samples of one dataset whose neighbor and primary
  indices all lie in \<open>[0, n_atoms_k)\<close>, the collator returns a batch in which every
  neighbor index and every primary index of sample \<open>k\<close> is its per-sample value plus the
  atom offset of sample \<open>k\<close>, the sum of \<open>n_atoms_j\<close> over \<open>j < k\<close>; all of them are valid
  against the flattened atom axis, whose length is the sum of all \<open>n_atoms_k\<close>; and group
  \<open>k\<close> is the range from the group offset of sample \<open>k\<close> to that of sample \<open>k + 1\<close>, so
  that the groups, in order, are exactly the positions \<open>0, 1, ...\<close> of the primary-index
  axis, whose length is the sum of all \<open>p_k\<close>.
\<close>

theorem collate_pool_offsets:
  assumes "samples \<noteq> []"
    and "\<forall>s\<in>set samples. sample_shapes A M L F T s"
    and "\<forall>s\<in>set samples. indices_in_range s"
  shows "\<exists>b. collate_pool samples = Inr b
     \<and> shape (cat_atom_fea b) = [atom_offset samples (length samples), A]
     \<and> data (cat_nbr_fea_idx b) = shifted nbr_fea_idx samples
     \<and> data (cat_m1_index b) = shifted m1_index samples
     \<and> (\<forall>i\<in>set (data (cat_nbr_fea_idx b)) \<union> set (data (cat_m1_index b)).
           0 \<le> i \<and> i < int (atom_offset samples (length samples)))
     \<and> shape (cat_m1_index b) = [group_offset samples (length samples)]
     \<and> map data (groups b) =
         map (\<lambda>k. map int [group_offset samples k..<group_offset samples (Suc k)]) [0..<length samples]
     \<and> concat (map data (groups b)) = map int [0..<group_offset samples (length samples)]"
proof -
  note res = collate_pool_result[OF assms(1,2)]
  have r1: "\<forall>i\<in>set (shifted nbr_fea_idx samples). 0 \<le> i \<and> i < int (atom_offset samples (length samples))"
    using assms(3) by (intro ballI shifted_in_range[where fld = nbr_fea_idx]) (auto simp: indices_in_range_def)
  have r2: "\<forall>i\<in>set (shifted m1_index samples). 0 \<le> i \<and> i < int (atom_offset samples (length samples))"
    using assms(3) by (intro ballI shifted_in_range[where fld = m1_index]) (auto simp: indices_in_range_def)
  show ?thesis
    unfolding res using r1 r2
    by (simp only: sum.inject simp_thms ex_simps batch.simps tensor.simps groups_data groups_concat)
       auto
qed

theorem collate_pool_offsets_witness:
  "\<exists>b. collate_pool [sample_a, sample_b] = Inr b
     \<and> shape (cat_atom_fea b) = [8, 2]
     \<and> data (cat_nbr_fea_idx b) = [1, 2, 0, 2, 0, 1, 4, 7, 3, 5, 4, 6, 5, 7, 6, 3]
     \<and> data (cat_m1_index b) = [0, 2, 7, 4, 6]
     \<and> shape (cat_m1_index b) = [5]
     \<and> map data (groups b) = [[0, 1], [2, 3, 4]]"
proof -
  have sh: "shifted nbr_fea_idx [sample_a, sample_b] = [1, 2, 0, 2, 0, 1, 4, 7, 3, 5, 4, 6, 5, 7, 6, 3]"
    "shifted m1_index [sample_a, sample_b] = [0, 2, 7, 4, 6]"
    by (simp_all add: shifted_def upt_rec two_samples_offsets) (simp_all add: sample_a_def sample_b_def)
  have up: "[0..<length [sample_a, sample_b]] = [0, Suc 0]" by (simp add: upt_rec)
  have r: "[0..<2::nat] = [0, 1]" "[2..<5::nat] = [2, 3, 4]" by (simp_all add: upt_rec)
  from collate_pool_offsets[OF _ two_samples_shapes two_samples_range]
  obtain b where b: "collate_pool [sample_a, sample_b] = Inr b"
     "shape (cat_atom_fea b) = [atom_offset [sample_a, sample_b] (length [sample_a, sample_b]), 2]"
     "data (cat_nbr_fea_idx b) = shifted nbr_fea_idx [sample_a, sample_b]"
     "data (cat_m1_index b) = shifted m1_index [sample_a, sample_b]"
     "shape (cat_m1_index b) = [group_offset [sample_a, sample_b] (length [sample_a, sample_b])]"
     "map data (groups b) =
         map (\<lambda>k. map int [group_offset [sample_a, sample_b] k..<group_offset [sample_a, sample_b] (Suc k)])
           [0..<length [sample_a, sample_b]]"
    by auto
  have "map data (groups b) = [[0, 1], [2, 3, 4]]"
    unfolding b(6) up by (simp add: two_samples_offsets r)
  then show ?thesis
    using b(1-5) by (simp add: sh two_samples_offsets)
qed

text \<open>
  Claim C7, as the code has it.  The batch of \<open>K\<close> samples of one dataset has \<open>K\<close> groups,
  in the order of the samples; group \<open>k\<close> is the contiguous range of length \<open>p_k\<close> that
  starts at the sum of \<open>p_j\<close> over \<open>j < k\<close>, where \<open>p_k\<close> is the length of the primary index
  vector of sample \<open>k\<close>; the lengths of the groups sum to the sum of all \<open>p_k\<close>.  The groups
  index the primary-index axis, not the atom rows.
\<close>

theorem collate_pool_groups:
  assumes "samples \<noteq> []"
    and "\<forall>s\<in>set samples. sample_shapes A M L F T s"
  shows "\<exists>b. collate_pool samples = Inr b
     \<and> length (groups b) = length samples
     \<and> sum_list (group_sizes b) = sum_list (map n_primary samples)
     \<and> (\<forall>k<length samples.
           groups b ! k =
             \<lparr>shape = [n_primary (samples ! k)],
              data = map int [group_offset samples k..<group_offset samples k + n_primary (samples ! k)]\<rparr>)"
proof -
  note res = collate_pool_result[OF assms]
  have "sum_list (map (\<lambda>g. length (data g))
          (map (\<lambda>k. arange_plus (n_primary (samples ! k)) (int (group_offset samples k)))
             [0..<length samples])) =
        sum_list (map (\<lambda>k. n_primary (samples ! k)) [0..<length samples])"
    by (simp add: arange_plus_range o_def)
  also have "\<dots> = sum_list (map n_primary samples)"
    by (simp only: map_nth_fn)
  finally show ?thesis
    unfolding res by (simp add: group_sizes_def arange_plus_range)
qed

theorem collate_pool_groups_witness:
  "\<exists>b. collate_pool [sample_a, sample_b] = Inr b
     \<and> length (groups b) = 2
     \<and> sum_list (group_sizes b) = 5
     \<and> groups b ! 0 = \<lparr>shape = [2], data = [0, 1]\<rparr>
     \<and> groups b ! 1 = \<lparr>shape = [3], data = [2, 3, 4]\<rparr>"
proof -
  have r: "[0..<2::nat] = [0, 1]" "[2..<5::nat] = [2, 3, 4]" by (simp_all add: upt_rec)
  have p: "n_primary sample_a = 2" "n_primary sample_b = 3"
    by (simp_all add: n_primary_def sample_a_def sample_b_def)
  from collate_pool_groups[OF _ two_samples_shapes]
  obtain b where b: "collate_pool [sample_a, sample_b] = Inr b"
     "length (groups b) = length [sample_a, sample_b]"
     "sum_list (group_sizes b) = sum_list (map n_primary [sample_a, sample_b])"
     "\<forall>k<length [sample_a, sample_b]. groups b ! k =
             \<lparr>shape = [n_primary ([sample_a, sample_b] ! k)],
              data = map int [group_offset [sample_a, sample_b] k..<
                        group_offset [sample_a, sample_b] k + n_primary ([sample_a, sample_b] ! k)]\<rparr>"
    by auto
  have "groups b ! 0 = \<lparr>shape = [2], data = [0, 1]\<rparr>"
    using b(4)[rule_format, of 0] by (simp add: two_samples_offsets p r)
  moreover have "groups b ! 1 = \<lparr>shape = [3], data = [2, 3, 4]\<rparr>"
    using b(4)[rule_format, of 1] by (simp add: two_samples_offsets p r)
  ultimately show ?thesis using b(1-3) by (simp add: p)
qed

text \<open>
  The batch of the single sample \<open>sample_a\<close> has three atom rows, and its only group
  has two entries: the lengths of the groups do not sum to the number of atom rows.
\<close>

theorem collate_pool_groups_counterexample:
  "\<not> isl (collate_pool [sample_a])
   \<and> sum_list (group_sizes (projr (collate_pool [sample_a]))) = 2
   \<and> shape (cat_atom_fea (projr (collate_pool [sample_a]))) = [3, 2]"
proof -
  have sh: "\<forall>s\<in>set [sample_a]. sample_shapes 2 2 1 [1] [1] s"
    using two_samples_shapes by simp
  have off: "atom_offset [sample_a] (length [sample_a]) = 3"
    by (simp add: atom_offset_def n_atoms_def sample_a_def)
  have p: "n_primary sample_a = 2" by (simp add: n_primary_def sample_a_def)
  show ?thesis
    unfolding collate_pool_result[OF _ sh, simplified]
    by (simp add: group_sizes_def arange_plus_def p off[simplified])
qed

text \<open>
  Claim C10.  Applied to the empty list of samples the collator does not return an empty
  batch: the loop runs zero times and the first \<open>torch.cat\<close>, of an empty list of
  tensors, raises.
\<close>

theorem collate_pool_empty: "collate_pool [] = Inl RuntimeError"
  by (simp add: collate_pool_def bind_err_def torch_cat_def collate_init_def)

section \<open>The Gaussian distance expansion: construction and centers\<close>

text \<open>
  Claim C8, as the code has it.  With \<open>dmin \<ge> dmax\<close> or \<open>dmax - dmin \<le> step\<close> the
  construction of the expander fails with an assertion error, and so does the
  construction of a dataset with that radius, minimum and step, before any of its items
  can be requested.  With \<open>dmin < dmax\<close>, \<open>dmax - dmin > step\<close> and a step other than
  zero the construction succeeds, with the centers \<open>dmin + i * step\<close>.
\<close>

theorem GaussianDistance_init_bounds:
  "(dmax \<le> dmin \<or> dmax - dmin \<le> step \<longrightarrow>
      GaussianDistance_init dmin dmax step var = Inl AssertionError
    \<and> isl (CIFData_init root_exists mn mmn mr dmax dmin step p))
 \<and> (dmin < dmax \<and> step < dmax - dmin \<and> step \<noteq> 0 \<longrightarrow>
      GaussianDistance_init dmin dmax step var =
        Inr \<lparr>filter_gd = map (\<lambda>i. dmin + real i * step) [0..<nat \<lceil>(dmax + step - dmin) / step\<rceil>],
             var_gd = (case var of None \<Rightarrow> step | Some v \<Rightarrow> v)\<rparr>)"
  by (auto simp: GaussianDistance_init_def CIFData_init_def bind_err_def np_arange_def)

theorem GaussianDistance_init_bounds_witness:
  "GaussianDistance_init 3 0 1 None = Inl AssertionError
 \<and> isl (CIFData_init True 3 1 4 0 3 1 False)
 \<and> GaussianDistance_init 0 3 4 None = Inl AssertionError
 \<and> GaussianDistance_init 0 3 1 None = Inr \<lparr>filter_gd = [0, 1, 2, 3], var_gd = 1\<rparr>"
proof -
  have c: "nat \<lceil>(3 + 1 - 0) / (1::real)\<rceil> = 4" by simp
  have u: "[0..<4] = [0, 1, 2, Suc 2]" by (simp add: upt_rec)
  have a: "GaussianDistance_init 3 0 1 None = Inl AssertionError
      \<and> isl (CIFData_init True 3 1 4 0 3 1 False)"
    using GaussianDistance_init_bounds[of 0 3 1 None True 3 1 4 False] by simp
  have b: "GaussianDistance_init 0 3 4 None = Inl AssertionError"
    using GaussianDistance_init_bounds[of 3 0 4 None True 3 1 4 False] by simp
  have "GaussianDistance_init 0 3 1 None =
      Inr \<lparr>filter_gd = map (\<lambda>i. 0 + real i * 1) [0..<nat \<lceil>(3 + 1 - 0) / (1::real)\<rceil>], var_gd = 1\<rparr>"
    using GaussianDistance_init_bounds[of 3 0 1 None True 3 1 4 False] by simp
  then have "GaussianDistance_init 0 3 1 None = Inr \<lparr>filter_gd = [0, 1, 2, 3], var_gd = 1\<rparr>"
    unfolding c u by simp
  with a b show ?thesis by simp
qed

text \<open>
  With the bounds 0 and 6 and the step 0 both assertions hold and the construction
  fails all the same, in \<open>np.arange\<close>.
\<close>

theorem GaussianDistance_init_bounds_counterexample:
  "(0::real) < 6 \<and> (0::real) < 6 - 0 \<and> GaussianDistance_init 0 6 0 None = Inl ZeroDivisionError"
  by (simp add: GaussianDistance_init_def bind_err_def np_arange_def)

text \<open>
  Claim C9, as the code has it.  For an expander that was constructed with no variance
  given, or with a variance other than zero, and for every index \<open>k\<close> of a center:
  the expansion of the distance \<open>centers[k]\<close> has exactly 1 in channel \<open>k\<close>; for every
  distance \<open>d\<close>, channel \<open>k\<close> of its expansion is \<open>exp(-(d - centers[k])\<^sup>2 / variance\<^sup>2)\<close>;
  the expansion of a scalar has one channel for each center; and center \<open>k\<close> is
  \<open>dmin + k * step\<close>.
\<close>

theorem expand_center:
  assumes g: "GaussianDistance_init dmin dmax step var = Inr g"
    and v: "var \<noteq> Some 0"
    and k: "k < length (filter_gd g)"
  shows "data (expand g (scalar (filter_gd g ! k))) ! k = Some 1
       \<and> data (expand g (scalar d)) ! k = Some (exp (- (d - filter_gd g ! k)\<^sup>2 / (var_gd g)\<^sup>2))
       \<and> shape (expand g (scalar d)) = [length (filter_gd g)]
       \<and> filter_gd g ! k = dmin + real k * step"
proof -
  from g have step: "step \<noteq> 0"
    by (auto simp: GaussianDistance_init_def bind_err_def np_arange_def split: if_splits)
  from g step have gv: "var_gd g = (case var of None \<Rightarrow> step | Some x \<Rightarrow> x)"
    and gf: "filter_gd g = map (\<lambda>i. dmin + real i * step) [0..<nat \<lceil>(dmax + step - dmin) / step\<rceil>]"
    by (auto simp: GaussianDistance_init_def bind_err_def np_arange_def split: if_splits)
  have nz: "var_gd g \<noteq> 0" using v step by (cases var) (auto simp: gv)
  have ch: "data (expand g (scalar x)) ! k = gauss (var_gd g) x (filter_gd g ! k)" for x
    using k by (simp add: expand_def scalar_def)
  have c: "filter_gd g ! k = dmin + real k * step"
    using k by (simp add: gf)
  have p1: "data (expand g (scalar (filter_gd g ! k))) ! k = Some 1"
    using nz by (simp add: ch gauss_def)
  have p2: "data (expand g (scalar d)) ! k = Some (exp (- (d - filter_gd g ! k)\<^sup>2 / (var_gd g)\<^sup>2))"
    using nz by (simp add: ch gauss_def)
  have p3: "shape (expand g (scalar d)) = [length (filter_gd g)]"
    by (simp add: expand_def scalar_def)
  show ?thesis
    using p1 p2 p3 c by simp
qed

theorem expand_center_witness:
  "GaussianDistance_init 0 3 1 None = Inr \<lparr>filter_gd = [0, 1, 2, 3], var_gd = 1\<rparr>
 \<and> data (expand \<lparr>filter_gd = [0, 1, 2, 3], var_gd = 1\<rparr> (scalar 2)) ! 2 = Some 1
 \<and> data (expand \<lparr>filter_gd = [0, 1, 2, 3], var_gd = 1\<rparr> (scalar 3)) ! 2 = Some (exp (- 1))"
proof -
  have g: "GaussianDistance_init 0 3 1 None = Inr \<lparr>filter_gd = [0, 1, 2, 3], var_gd = 1\<rparr>"
    by (simp add: GaussianDistance_init_def bind_err_def np_arange_def upt_rec)
  show ?thesis
    using expand_center[OF g, of 2 3] g by simp
qed

text \<open>
  An expander constructed with the variance 0 has NaN, not 1, in channel 0 of the
  expansion of its center 0.
\<close>

theorem expand_center_counterexample:
  "GaussianDistance_init 0 1 (1 / 2) (Some 0) = Inr \<lparr>filter_gd = [0, 1 / 2, 1], var_gd = 0\<rparr>
 \<and> data (expand \<lparr>filter_gd = [0, 1 / 2, 1], var_gd = 0\<rparr> (scalar 0)) ! 0 = None"
  by (simp add: GaussianDistance_init_def bind_err_def np_arange_def upt_rec expand_def scalar_def
      gauss_def)

section \<open>Sample construction\<close>

lemma bind_err_Inr:
  "bind_err m f = Inr y \<longleftrightarrow> (\<exists>x. m = Inr x \<and> f x = Inr y)"
  by (cases m) (simp_all add: bind_err_def)

lemma getitem_Inr:
  assumes "getitem self cif t m2 c = Inr s"
  shows "\<exists>a m_idx d.
           metal_index c \<noteq> []
         \<and> np_array2 (atom_fea_rows c) = Inr a
         \<and> M_idx (metal_max_num_nbr self) (metal_nbr_idx self c) = Inr m_idx
         \<and> np_array2 (nbr_fea_idx_rows self c) = Inr (nbr_fea_idx s)
         \<and> np_array2 (nbr_fea_rows self c) = Inr d
         \<and> atom_fea s = a
         \<and> nbr_fea s = expand (gdf self) d
         \<and> m1_index s = tensor1 (M1_idx m_idx (metal_index c))"
  using assms
  by (auto simp: getitem_def bind_err_Inr split: if_splits)

lemma M_idx_Inr:
  assumes "M_idx m rows = Inr xs"
  shows "xs = concat rows \<and> (\<forall>r\<in>set rows. int (length r) = m)"
  using assms
proof (induction rows arbitrary: xs)
  case Nil
  then show ?case by simp
next
  case (Cons row rows)
  from Cons.prems have len: "int (length row) = m"
    by (simp split: if_splits)
  from Cons.prems len obtain rest where rest: "M_idx m rows = Inr rest"
    and xs: "xs = map (\<lambda>j. row ! j) [0..<nat m] @ rest"
    by (auto simp: bind_err_Inr)
  have "nat m = length row" using len by simp
  then have "map (\<lambda>j. row ! j) [0..<nat m] = row" by (simp add: map_nth)
  then show ?case using Cons.IH[OF rest] xs len by simp
qed

lemma length_concat_uniform:
  "\<forall>r\<in>set rows. length r = k \<Longrightarrow> length (concat rows) = k * length rows"
  by (induction rows) simp_all

lemma length_pad_idx: "0 \<le> m \<Longrightarrow> length (pad_idx m nbr) = nat m"
  by (auto simp: pad_idx_def slice_to_def)

lemma length_pad_dist: "0 \<le> m \<Longrightarrow> length (pad_dist r m nbr) = nat m"
  by (auto simp: pad_dist_def slice_to_def)

lemma set_pad_idx: "set (pad_idx m nbr) \<subseteq> insert 0 (snd ` set nbr)"
  by (auto simp: pad_idx_def slice_to_def dest: in_set_takeD)

lemma metal_index_bound: "i \<in> set (metal_index c) \<Longrightarrow> i < length (species c)"
  by (simp add: metal_index_def)

lemma np_array2_atom_fea:
  "species c \<noteq> [] \<Longrightarrow>
   np_array2 (atom_fea_rows c) =
     Inr \<lparr>shape = [length (species c), 2], data = concat (atom_fea_rows c)\<rparr>"
proof -
  assume ne: "species c \<noteq> []"
  then obtain n where n: "length (species c) = Suc n" by (cases "species c") auto
  have "[0..<Suc n] = 0 # [Suc 0..<Suc n]" by (simp add: upt_rec)
  then show ?thesis
    by (simp add: np_array2_def atom_fea_rows_def n list_all_iff del: upt_Suc)
qed

lemma np_array2_Inr:
  assumes "np_array2 rows = Inr t" "rows \<noteq> []" "\<forall>r\<in>set rows. length r = k"
  shows "t = \<lparr>shape = [length rows, k], data = concat rows\<rparr>"
  using assms by (cases rows) (auto simp: np_array2_def split: if_splits)

text \<open>The construction on the concrete structures.\<close>

lemmas getitem_defs =
  getitem_def bind_err_def np_array2_def atom_fea_rows_def metal_index_def metal_nbr_idx_def
  all_metal_nbrs_def all_nbrs_def nbr_fea_idx_rows_def nbr_fea_rows_def pad_idx_def pad_dist_def
  slice_to_def M1_idx_def tensor1_def upt_rec

lemma example_data_init: "CIFData_init True 3 1 4 3 0 1 False = Inr example_data"
  by (simp add: CIFData_init_def GaussianDistance_init_def np_arange_def bind_err_def
      example_data_def upt_rec)

lemma negative_data_init: "CIFData_init True (- 1) 1 4 3 0 1 False = Inr negative_data"
  by (simp add: CIFData_init_def GaussianDistance_init_def np_arange_def bind_err_def
      negative_data_def upt_rec)

lemma getitem_cu_o: "getitem example_data ''CuO'' [1] [2] cu_o = Inr cu_o_sample"
  by (simp add: getitem_defs example_data_def cu_o_def cu_o_sample_def eval_nat_numeral)

lemma getitem_lone_cu: "getitem example_data ''Cu'' [1] [2] lone_cu = Inr lone_cu_sample"
  by (simp add: getitem_defs example_data_def lone_cu_def lone_cu_sample_def eval_nat_numeral)

lemma getitem_negative: "getitem negative_data ''CuO'' [1] [2] cu_o = Inr negative_sample"
  by (simp add: getitem_defs negative_data_def cu_o_def negative_sample_def eval_nat_numeral)

lemma cu_o_rows:
  "all_nbrs example_data cu_o = [[(2, 1), (3, 0)], [(2, 0), (3, 1)]]"
  "nbr_fea_idx_rows example_data cu_o = [[1, 0, 0], [0, 1, 0]]"
  "nbr_fea_rows example_data cu_o = [[2, 3, 4], [2, 3, 4]]"
  "metal_index cu_o = [1]"
  by (simp_all add: getitem_defs example_data_def cu_o_def eval_nat_numeral)

text \<open>
  Claim C4.  For a structure none of whose sites is a metal, sample construction raises
  \<open>SystemExit\<close>: it returns no sample and does not go on to the next structure.
\<close>

theorem getitem_no_metal:
  assumes "\<forall>sp\<in>set (species c). \<not> is_metal sp"
  shows "getitem self cif t m2 c = Inl (SystemExit 0)"
proof -
  have "metal_index c = []"
    using assms by (auto simp: metal_index_def filter_empty_conv)
  then show ?thesis by (simp add: getitem_def)
qed

theorem getitem_no_metal_witness:
  "getitem example_data ''O2'' [1] [2] o2 = Inl (SystemExit 0)"
  using getitem_no_metal[of o2 example_data "''O2''" "[1]" "[2]"]
  by (simp add: o2_def)

text \<open>
  Claim C3.  When a sample is constructed (so that the structure has a metal atom) and
  the geometry library returns site indices of the structure for the neighbors of the
  metal atoms, the sample has one atom row for each of the \<open>n_atoms\<close> sites, every entry
  of its primary index vector lies in \<open>[0, n_atoms)\<close>, the index of every metal atom is
  an entry, and no entry occurs twice.
\<close>

theorem primary_index_valid:
  assumes ok: "getitem self cif t m2 c = Inr s"
    and nb: "\<forall>i\<in>set (metal_index c). \<forall>x\<in>set (get_neighbors c i (metal_radius self)).
               0 \<le> snd x \<and> snd x < int (length (species c))"
  shows "shape (atom_fea s) = [length (species c), 2]
       \<and> (\<forall>j\<in>set (data (m1_index s)). 0 \<le> j \<and> j < int (length (species c)))
       \<and> (\<forall>i<length (species c). is_metal (species c ! i) \<longrightarrow> int i \<in> set (data (m1_index s)))
       \<and> distinct (data (m1_index s))"
proof -
  from getitem_Inr[OF ok] obtain a m_idx where
    metal: "metal_index c \<noteq> []"
    and a: "np_array2 (atom_fea_rows c) = Inr a" "atom_fea s = a"
    and m: "M_idx (metal_max_num_nbr self) (metal_nbr_idx self c) = Inr m_idx"
    and m1: "m1_index s = tensor1 (M1_idx m_idx (metal_index c))"
    by blast
  from metal obtain i0 where "i0 \<in> set (metal_index c)" by (cases "metal_index c") auto
  then have pos: "0 < length (species c)" using metal_index_bound by fastforce
  then have ne: "species c \<noteq> []" by auto
  have shape: "shape (atom_fea s) = [length (species c), 2]"
    using a np_array2_atom_fea[OF ne] by auto
  have data: "data (m1_index s) = remdups (concat (metal_nbr_idx self c) @ map int (metal_index c))"
    using M_idx_Inr[OF m] by (simp add: m1 tensor1_def M1_idx_def)
  have rng: "0 \<le> j \<and> j < int (length (species c))" if "j \<in> set (concat (metal_nbr_idx self c))" for j
  proof -
    from that obtain i where i: "i \<in> set (metal_index c)"
      and j: "j \<in> set (pad_idx (metal_max_num_nbr self) (sort_key fst (get_neighbors c i (metal_radius self))))"
      by (auto simp: metal_nbr_idx_def all_metal_nbrs_def)
    from j set_pad_idx have "j = 0 \<or> j \<in> snd ` set (get_neighbors c i (metal_radius self))"
      by fastforce
    then show ?thesis using nb i pos by auto
  qed
  have rng2: "0 \<le> j \<and> j < int (length (species c))" if "j \<in> int ` set (metal_index c)" for j
    using that metal_index_bound by fastforce
  have mem: "int i \<in> set (data (m1_index s))" if "i < length (species c)" "is_metal (species c ! i)" for i
    using that by (simp add: data metal_index_def)
  show ?thesis
    using shape rng rng2 mem by (auto simp: data)
qed

theorem primary_index_valid_witness:
  "getitem example_data ''CuO'' [1] [2] cu_o = Inr cu_o_sample
 \<and> shape (atom_fea cu_o_sample) = [2, 2]
 \<and> data (m1_index cu_o_sample) = [0, 1]
 \<and> 1 \<in> set (data (m1_index cu_o_sample))
 \<and> distinct (data (m1_index cu_o_sample))"
proof -
  have nb: "\<forall>i\<in>set (metal_index cu_o).
      \<forall>x\<in>set (get_neighbors cu_o i (metal_radius example_data)).
        0 \<le> snd x \<and> snd x < int (length (species cu_o))"
    by (simp add: cu_o_rows) (simp add: cu_o_def example_data_def)
  have sp: "length (species cu_o) = 2" "is_metal (species cu_o ! 1)"
    by (simp_all add: cu_o_def)
  from primary_index_valid[OF getitem_cu_o nb]
  have f: "shape (atom_fea cu_o_sample) = [2, 2]" "distinct (data (m1_index cu_o_sample))"
    "\<forall>i<length (species cu_o). is_metal (species cu_o ! i) \<longrightarrow> int i \<in> set (data (m1_index cu_o_sample))"
    by (simp_all add: sp)
  have "int 1 \<in> set (data (m1_index cu_o_sample))"
    using f(3)[rule_format, of 1] sp by simp
  then have "1 \<in> set (data (m1_index cu_o_sample))" by simp
  moreover note f(1,2)
  moreover have "data (m1_index cu_o_sample) = [0, 1]" by (simp add: cu_o_sample_def)
  ultimately show ?thesis using getitem_cu_o by simp
qed

text \<open>
  Claim C5, as the code has it.  The length of the primary index vector of a constructed
  sample is at most \<open>metal_max_num_nbr\<close> times the number of metal atoms plus the
  number of metal atoms: the metal atoms themselves are added to their neighbors.
\<close>

theorem primary_index_length:
  assumes ok: "getitem self cif t m2 c = Inr s"
  shows "length (data (m1_index s)) \<le>
           nat (metal_max_num_nbr self) * length (metal_index c) + length (metal_index c)"
proof -
  from getitem_Inr[OF ok] obtain m_idx where
    m: "M_idx (metal_max_num_nbr self) (metal_nbr_idx self c) = Inr m_idx"
    and m1: "m1_index s = tensor1 (M1_idx m_idx (metal_index c))"
    by blast
  from M_idx_Inr[OF m] have cat: "m_idx = concat (metal_nbr_idx self c)"
    and len: "\<forall>r\<in>set (metal_nbr_idx self c). length r = nat (metal_max_num_nbr self)"
    by auto
  have "length m_idx = nat (metal_max_num_nbr self) * length (metal_nbr_idx self c)"
    unfolding cat by (rule length_concat_uniform[OF len])
  also have "length (metal_nbr_idx self c) = length (metal_index c)"
    by (simp add: metal_nbr_idx_def all_metal_nbrs_def)
  finally have "length (m_idx @ map int (metal_index c)) =
      nat (metal_max_num_nbr self) * length (metal_index c) + length (metal_index c)"
    by simp
  moreover have "length (data (m1_index s)) \<le> length (m_idx @ map int (metal_index c))"
    unfolding m1 tensor1_def M1_idx_def by (simp only: tensor.simps length_remdups_leq)
  ultimately show ?thesis by simp
qed

theorem primary_index_length_witness:
  "getitem example_data ''CuO'' [1] [2] cu_o = Inr cu_o_sample
 \<and> length (data (m1_index cu_o_sample)) \<le> 2"
  using primary_index_length[OF getitem_cu_o] getitem_cu_o
  by (simp add: cu_o_rows example_data_def)

text \<open>
  With one metal neighbor slot, the copper atom of \<open>cu_o\<close> brings the oxygen atom and
  itself: two entries for one slot times one metal atom.
\<close>

theorem primary_index_length_counterexample:
  "getitem example_data ''CuO'' [1] [2] cu_o = Inr cu_o_sample
 \<and> length (data (m1_index cu_o_sample)) = 2
 \<and> nat (metal_max_num_nbr example_data) * length (metal_index cu_o) = 1"
  using getitem_cu_o by (simp add: cu_o_rows) (simp add: cu_o_sample_def example_data_def)

text \<open>
  Claim C6, as the code has it.  For a structure whose only metal atom \<open>m\<close> has no
  neighbor within the metal radius, the primary index vector of the constructed sample
  has no duplicates and consists of the padding index 0 and of \<open>m\<close> (of \<open>m\<close> alone when
  \<open>metal_max_num_nbr\<close> is 0): its length is 1 when \<open>m\<close> is atom 0 or there is no metal
  neighbor slot, and 2 otherwise.
\<close>

theorem lone_metal_primary_index:
  assumes ok: "getitem self cif t m2 c = Inr s"
    and one: "metal_index c = [m]"
    and none: "get_neighbors c m (metal_radius self) = []"
  shows "set (data (m1_index s)) = (if metal_max_num_nbr self = 0 then {int m} else {0, int m})
       \<and> distinct (data (m1_index s))
       \<and> length (data (m1_index s)) = (if metal_max_num_nbr self = 0 \<or> m = 0 then 1 else 2)"
proof -
  let ?mm = "metal_max_num_nbr self"
  from getitem_Inr[OF ok] obtain m_idx where
    m: "M_idx ?mm (metal_nbr_idx self c) = Inr m_idx"
    and m1: "m1_index s = tensor1 (M1_idx m_idx (metal_index c))"
    by blast
  have rows: "metal_nbr_idx self c = [pad_idx ?mm []]"
    by (simp add: metal_nbr_idx_def all_metal_nbrs_def one none)
  from M_idx_Inr[OF m] have cat: "m_idx = pad_idx ?mm []" and len: "int (length (pad_idx ?mm [])) = ?mm"
    by (simp_all add: rows)
  from len have nonneg: "0 \<le> ?mm" by linarith
  have pad: "pad_idx ?mm [] = replicate (nat ?mm) 0"
    using nonneg by (auto simp: pad_idx_def slice_to_def)
  have data: "data (m1_index s) = remdups (replicate (nat ?mm) 0 @ [int m])"
    by (simp add: m1 tensor1_def M1_idx_def cat pad one)
  have set: "set (data (m1_index s)) = (if ?mm = 0 then {int m} else {0, int m})"
    using nonneg by (auto simp: data)
  have dist: "distinct (data (m1_index s))" by (simp add: data)
  have "length (data (m1_index s)) = card (set (data (m1_index s)))"
    using dist by (simp add: distinct_card)
  also have "\<dots> = (if ?mm = 0 \<or> m = 0 then 1 else 2)"
    unfolding set by auto
  finally show ?thesis using set dist by simp
qed

theorem lone_metal_primary_index_witness:
  "getitem example_data ''Cu'' [1] [2] lone_cu = Inr lone_cu_sample
 \<and> set (data (m1_index lone_cu_sample)) = {0, 1}
 \<and> length (data (m1_index lone_cu_sample)) = 2"
proof -
  have one: "metal_index lone_cu = [1]"
    by (simp add: metal_index_def lone_cu_def upt_rec)
  have none: "get_neighbors lone_cu 1 (metal_radius example_data) = []"
    by (simp add: lone_cu_def)
  show ?thesis
    using lone_metal_primary_index[OF getitem_lone_cu one none] getitem_lone_cu
    by (simp add: example_data_def)
qed

text \<open>
  The lone copper atom of \<open>lone_cu\<close> is atom 1: the primary index vector holds the
  padding index 0 and the index 1.
\<close>

theorem lone_metal_primary_index_counterexample:
  "metal_index lone_cu = [1]
 \<and> get_neighbors lone_cu 1 (metal_radius example_data) = []
 \<and> getitem example_data ''Cu'' [1] [2] lone_cu = Inr lone_cu_sample
 \<and> data (m1_index lone_cu_sample) = [0, 1]"
  using getitem_lone_cu
  by (simp add: metal_index_def lone_cu_def upt_rec lone_cu_sample_def)

text \<open>
  Claim C2, as the code has it.  For a constructed sample of a dataset with
  \<open>max_num_nbr \<ge> 0\<close> and for every atom \<open>i\<close>: the neighbor index matrix and the neighbor
  feature tensor have exactly \<open>max_num_nbr\<close> slots for each atom, the latter being the
  expansion of the distance rows; the neighbors of atom \<open>i\<close> are sorted by distance; with
  fewer than \<open>max_num_nbr\<close> neighbors their indices are followed by the index 0 and
  their distances by the distance \<open>radius + 1\<close> in the missing slots; otherwise the
  rows hold the first \<open>max_num_nbr\<close> neighbors.
\<close>

theorem neighbor_rows_padded:
  assumes ok: "getitem self cif t m2 c = Inr s"
    and nonneg: "0 \<le> max_num_nbr self"
    and i: "i < length (all_nbrs self c)"
  shows "shape (nbr_fea_idx s) = [length (all_nbrs self c), nat (max_num_nbr self)]
       \<and> data (nbr_fea_idx s) = concat (nbr_fea_idx_rows self c)
       \<and> nbr_fea s = expand (gdf self)
            \<lparr>shape = [length (all_nbrs self c), nat (max_num_nbr self)],
             data = concat (nbr_fea_rows self c)\<rparr>
       \<and> shape (nbr_fea s) =
            [length (all_nbrs self c), nat (max_num_nbr self), length (filter_gd (gdf self))]
       \<and> length (nbr_fea_idx_rows self c ! i) = nat (max_num_nbr self)
       \<and> length (nbr_fea_rows self c ! i) = nat (max_num_nbr self)
       \<and> sorted (map fst (all_nbrs self c ! i))
       \<and> (length (all_nbrs self c ! i) < nat (max_num_nbr self) \<longrightarrow>
            nbr_fea_idx_rows self c ! i =
              map snd (all_nbrs self c ! i) @
              replicate (nat (max_num_nbr self) - length (all_nbrs self c ! i)) 0
          \<and> nbr_fea_rows self c ! i =
              map fst (all_nbrs self c ! i) @
              replicate (nat (max_num_nbr self) - length (all_nbrs self c ! i)) (radius self + 1))
       \<and> (nat (max_num_nbr self) \<le> length (all_nbrs self c ! i) \<longrightarrow>
            nbr_fea_idx_rows self c ! i = map snd (take (nat (max_num_nbr self)) (all_nbrs self c ! i))
          \<and> nbr_fea_rows self c ! i = map fst (take (nat (max_num_nbr self)) (all_nbrs self c ! i)))"
proof -
  let ?M = "max_num_nbr self"
  let ?n = "length (all_nbrs self c)"
  from getitem_Inr[OF ok] obtain d where
    idx: "np_array2 (nbr_fea_idx_rows self c) = Inr (nbr_fea_idx s)"
    and d: "np_array2 (nbr_fea_rows self c) = Inr d"
    and fea: "nbr_fea s = expand (gdf self) d"
    by blast
  have ne1: "nbr_fea_idx_rows self c \<noteq> []" and ne2: "nbr_fea_rows self c \<noteq> []"
    using i by (auto simp: nbr_fea_idx_rows_def nbr_fea_rows_def)
  have l1: "\<forall>r\<in>set (nbr_fea_idx_rows self c). length r = nat ?M"
    using nonneg by (auto simp: nbr_fea_idx_rows_def length_pad_idx)
  have l2: "\<forall>r\<in>set (nbr_fea_rows self c). length r = nat ?M"
    using nonneg by (auto simp: nbr_fea_rows_def length_pad_dist)
  have t1: "nbr_fea_idx s = \<lparr>shape = [?n, nat ?M], data = concat (nbr_fea_idx_rows self c)\<rparr>"
    using np_array2_Inr[OF idx ne1 l1] by (simp add: nbr_fea_idx_rows_def)
  have t2: "d = \<lparr>shape = [?n, nat ?M], data = concat (nbr_fea_rows self c)\<rparr>"
    using np_array2_Inr[OF d ne2 l2] by (simp add: nbr_fea_rows_def)
  have srt: "sorted (map fst (all_nbrs self c ! i))"
    using i by (simp add: all_nbrs_def)
  have r1: "nbr_fea_idx_rows self c ! i = pad_idx ?M (all_nbrs self c ! i)"
    and r2: "nbr_fea_rows self c ! i = pad_dist (radius self) ?M (all_nbrs self c ! i)"
    using i by (simp_all add: nbr_fea_idx_rows_def nbr_fea_rows_def)
  have short: "length (all_nbrs self c ! i) < nat ?M \<Longrightarrow>
      pad_idx ?M (all_nbrs self c ! i) =
        map snd (all_nbrs self c ! i) @ replicate (nat ?M - length (all_nbrs self c ! i)) 0
    \<and> pad_dist (radius self) ?M (all_nbrs self c ! i) =
        map fst (all_nbrs self c ! i) @
        replicate (nat ?M - length (all_nbrs self c ! i)) (radius self + 1)"
    using nonneg by (auto simp: pad_idx_def pad_dist_def nat_diff_distrib')
  have long: "nat ?M \<le> length (all_nbrs self c ! i) \<Longrightarrow>
      pad_idx ?M (all_nbrs self c ! i) = map snd (take (nat ?M) (all_nbrs self c ! i))
    \<and> pad_dist (radius self) ?M (all_nbrs self c ! i) = map fst (take (nat ?M) (all_nbrs self c ! i))"
    using nonneg by (auto simp: pad_idx_def pad_dist_def slice_to_def)
  show ?thesis
    using short long srt
    by (simp add: t1 fea t2 expand_def r1 r2 length_pad_idx[OF nonneg] length_pad_dist[OF nonneg])
qed

theorem neighbor_rows_padded_witness:
  "getitem example_data ''CuO'' [1] [2] cu_o = Inr cu_o_sample
 \<and> shape (nbr_fea_idx cu_o_sample) = [2, 3]
 \<and> shape (nbr_fea cu_o_sample) = [2, 3, 4]
 \<and> all_nbrs example_data cu_o ! 0 = [(2, 1), (3, 0)]
 \<and> nbr_fea_idx_rows example_data cu_o ! 0 = [1, 0, 0]
 \<and> nbr_fea_rows example_data cu_o ! 0 = [2, 3, radius example_data + 1]"
proof -
  have m: "0 \<le> max_num_nbr example_data" "max_num_nbr example_data = 3"
    "radius example_data = 3" "length (filter_gd (gdf example_data)) = 4"
    by (simp_all add: example_data_def)
  have i: "0 < length (all_nbrs example_data cu_o)" by (simp add: cu_o_rows)
  from neighbor_rows_padded[OF getitem_cu_o m(1) i]
  have "shape (nbr_fea_idx cu_o_sample) =
          [length (all_nbrs example_data cu_o), nat (max_num_nbr example_data)]"
    "shape (nbr_fea cu_o_sample) =
          [length (all_nbrs example_data cu_o), nat (max_num_nbr example_data),
           length (filter_gd (gdf example_data))]"
    "length (all_nbrs example_data cu_o ! 0) < nat (max_num_nbr example_data) \<longrightarrow>
            nbr_fea_idx_rows example_data cu_o ! 0 =
              map snd (all_nbrs example_data cu_o ! 0) @
              replicate (nat (max_num_nbr example_data) - length (all_nbrs example_data cu_o ! 0)) 0
          \<and> nbr_fea_rows example_data cu_o ! 0 =
              map fst (all_nbrs example_data cu_o ! 0) @
              replicate (nat (max_num_nbr example_data) - length (all_nbrs example_data cu_o ! 0))
                (radius example_data + 1)"
    by blast+
  then show ?thesis
    using getitem_cu_o by (simp add: cu_o_rows(1) m(2,3,4))
qed

text \<open>
  With \<open>max_num_nbr = -1\<close> the slice \<open>nbr[:-1]\<close> drops the last of the two neighbors
  of each atom of \<open>cu_o\<close>: the constructed sample has one slot for each atom.
\<close>

theorem neighbor_rows_padded_counterexample:
  "CIFData_init True (- 1) 1 4 3 0 1 False = Inr negative_data
 \<and> max_num_nbr negative_data = - 1
 \<and> getitem negative_data ''CuO'' [1] [2] cu_o = Inr negative_sample
 \<and> shape (nbr_fea_idx negative_sample) = [2, 1]
 \<and> shape (nbr_fea negative_sample) = [2, 1, 4]"
  using negative_data_init getitem_negative
  by (simp add: negative_data_def negative_sample_def expand_def)

end
